theory Spec2Isabelle
  imports Main "HOL-Library.Word"
begin

section \<open>Solidity values and reverts\<close>

text \<open>
  The contracts are written in Solidity \<open>^0.8.22\<close>: integers are fixed-width and unsigned,
  arithmetic is checked (an overflow or underflow raises \<open>Panic(0x11)\<close> and reverts), and
  \<open>bytes\<close> is a byte string.  A revert is the \<open>Inl\<close> of a sum type.  Gas is not
  modelled: no call runs out of it.
\<close>

type_synonym byte = "8 word"
type_synonym bytes = "byte list"
type_synonym uint256 = "256 word"
type_synonym uint128 = "128 word"
type_synonym uint64 = "64 word"
type_synonym uint32 = "32 word"
type_synonym uint16 = "16 word"
type_synonym address = "160 word"

datatype error =
    InvalidMsgLength          \<comment> \<open>\<open>error InvalidMsgLength()\<close> of Uint256MsgCodec.sol\<close>
  | AbiDecodeRevert           \<comment> \<open>a revert raised inside the built-in \<open>abi.decode\<close>\<close>
  | Panic nat                 \<comment> \<open>\<open>Panic(code)\<close>; \<open>0x11 = 17\<close> is arithmetic overflow/underflow\<close>
  | ExternalRevert bytes      \<comment> \<open>a revert bubbling up from the LayerZero libraries or endpoint\<close>

definition checked_sub :: "uint256 \<Rightarrow> uint256 \<Rightarrow> error + uint256" where
  "checked_sub a b = (if a < b then Inl (Panic 17) else Inr (a - b))"

definition checked_add128 :: "uint128 \<Rightarrow> uint128 \<Rightarrow> error + uint128" where
  "checked_add128 a b = (if uint a + uint b < 2 ^ 128 then Inr (a + b) else Inl (Panic 17))"

section \<open>ABI encoding of the message (Uint256MsgCodec.sol)\<close>

text \<open>
  \<open>abi.encode\<close> writes every static value as one 32-byte big-endian slot.
  \<open>be_bytes n x\<close> are the \<open>n\<close> low-order bytes of \<open>x\<close>, most significant first;
  \<open>be_int\<close> reads a byte string back as a big-endian number.
\<close>

fun be_bytes :: "nat \<Rightarrow> int \<Rightarrow> bytes" where
  "be_bytes 0 x = []"
| "be_bytes (Suc n) x = be_bytes n (x div 256) @ [word_of_int (x mod 256)]"

definition be_int :: "bytes \<Rightarrow> int" where
  "be_int bs = foldl (\<lambda>acc b. acc * 256 + uint b) 0 bs"

definition abi_slot :: "uint256 \<Rightarrow> bytes" where
  "abi_slot v = be_bytes 32 (uint v)"

text \<open>
  \<open>calldataload b i\<close>: the 32-byte word at byte offset \<open>i\<close> of the buffer \<open>b\<close>; bytes
  past the end read as zero, as the EVM instruction does.
\<close>

definition calldataload :: "bytes \<Rightarrow> nat \<Rightarrow> uint256" where
  "calldataload b i = word_of_int (be_int (take 32 (drop i b @ replicate 32 0)))"

definition ABA_TYPE :: uint16 where
  "ABA_TYPE = 2"

text \<open>\<open>encode\<close>: \<open>abi.encode(_value)\<close>, one slot.\<close>

definition encode :: "uint256 \<Rightarrow> bytes" where
  "encode v = abi_slot v"

text \<open>
  \<open>abi.decode(_msg, (uint256))\<close>: the generated decoder reverts when fewer than 32 bytes
  are present and otherwise loads the first slot.
\<close>

definition abi_decode_uint256 :: "bytes \<Rightarrow> error + uint256" where
  "abi_decode_uint256 b =
     (if length b < 32 then Inl AbiDecodeRevert else Inr (calldataload b 0))"

text \<open>\<open>decode\<close>: reverts with \<open>InvalidMsgLength\<close> unless the message has exactly 32 bytes.\<close>

definition decode :: "bytes \<Rightarrow> error + uint256" where
  "decode msg =
     (if length msg \<noteq> 32 then Inl InvalidMsgLength
      else abi_decode_uint256 (take 32 msg))"

text \<open>
  \<open>encodeABA\<close>: \<open>abi.encode(_value, ABA_TYPE, _returnOptions)\<close> for the tuple
  \<open>(uint256, uint16, bytes)\<close>.  The head has three slots: the value, the type padded to 32
  bytes, and the offset of the tail (96, the size of the head).  The tail is the length of
  \<open>_returnOptions\<close> in one slot, then its bytes, padded with zeros to a multiple of 32.
\<close>

definition pad32 :: "nat \<Rightarrow> bytes" where
  "pad32 n = replicate ((32 - n mod 32) mod 32) 0"

definition encodeABA :: "uint256 \<Rightarrow> bytes \<Rightarrow> bytes" where
  "encodeABA v returnOptions =
     abi_slot v @ abi_slot (ucast ABA_TYPE) @ abi_slot 96 @
     abi_slot (of_nat (length returnOptions)) @ returnOptions @ pad32 (length returnOptions)"

text \<open>
  \<open>abi.decode(_msg, (uint256, uint16, bytes))\<close>, following the decoder that the Solidity
  compiler generates (ABI coder v2, the default of 0.8), check by check and in its order:
  \<^item> fewer than 96 bytes of head: revert;
  \<^item> slot 0 is the \<open>uint256\<close>;
  \<^item> slot 1 must be a clean \<open>uint16\<close> (no bit set above bit 15), else revert;
  \<^item> slot 2 is the offset of the tail, relative to the start of the buffer: revert when it
    exceeds \<open>0xffffffffffffffff\<close>, and revert unless \<open>offset + 0x1f < length\<close>, that is
    unless the slot holding the tail's length lies inside the buffer.  The offset is
    followed as it is: the decoder does not require it to be 96 or to point behind the head;
  \<^item> the slot at the offset is the length of the byte string: beyond
    \<open>0xffffffffffffffff\<close> the allocation panics, and the decoder reverts when
    \<open>offset + 32 + length\<close> passes the end of the buffer;
  \<^item> the result is that many bytes after the length slot; padding is not inspected.
  Every failure inside the decoder, the allocation panic included, is the one error
  \<open>AbiDecodeRevert\<close>: the model does not tell their revert data apart.
\<close>

definition abi_decode_uint256_uint16_bytes :: "bytes \<Rightarrow> error + (uint256 \<times> uint16 \<times> bytes)" where
  "abi_decode_uint256_uint16_bytes b =
     (if length b < 96 then Inl AbiDecodeRevert
      else
        let value0 = calldataload b 0;
            slot1 = calldataload b 32
        in if slot1 \<noteq> ucast (ucast slot1 :: uint16) then Inl AbiDecodeRevert
        else
          let offset = uint (calldataload b 64)
          in if offset > 0xffffffffffffffff then Inl AbiDecodeRevert
          else if \<not> offset + 31 < int (length b) then Inl AbiDecodeRevert
          else
            let len = uint (calldataload b (nat offset))
            in if len > 0xffffffffffffffff then Inl AbiDecodeRevert
            else if offset + 32 + len > int (length b) then Inl AbiDecodeRevert
            else Inr (value0, ucast slot1, take (nat len) (drop (nat (offset + 32)) b)))"

text \<open>
  \<open>decodeABA\<close>: a message of exactly 32 bytes is a vanilla message (type 0, no return
  options); every other length goes to the tuple decoder.
\<close>

definition decodeABA :: "bytes \<Rightarrow> error + (uint256 \<times> uint16 \<times> bytes)" where
  "decodeABA msg =
     (if length msg = 32 then
        (case abi_decode_uint256 msg of
           Inl e \<Rightarrow> Inl e
         | Inr v \<Rightarrow> Inr (v, 0, []))
      else abi_decode_uint256_uint16_bytes msg)"

section \<open>The OApp contract (MyOApp.sol)\<close>

text \<open>
  The structs of the LayerZero interface that the contract passes around.
\<close>

record MessagingFee =
  nativeFee :: uint256
  lzTokenFee :: uint256

record MessagingReceipt =
  receipt_guid :: "256 word"
  receipt_nonce :: uint64
  receipt_fee :: MessagingFee

record Origin =
  srcEid :: uint32
  sender :: "256 word"
  origin_nonce :: uint64

text \<open>
  One call of the inherited \<open>_lzSend(_dstEid, _message, _options, _fee, _refundAddress)\<close>,
  with its five arguments.
\<close>

record lz_send =
  send_dstEid :: uint32
  send_message :: bytes
  send_options :: bytes
  send_fee :: MessagingFee
  send_refundAddress :: address

datatype event =
    BallServed address uint32 uint256 uint256
  | BallReceived address uint256 uint256
  | ReturnMessageSent uint32 uint256

text \<open>
  The storage the contract writes: the variable \<open>ball\<close>, and the log of emitted events.
\<close>

record state =
  ball :: uint256
  events :: "event list"

definition initial_state :: state where
  "initial_state = \<lparr>ball = 100000000000000000000, events = []\<rparr>"

text \<open>
  The parts the contract imports from the LayerZero packages, which are not part of this
  repository, are parameters of the model:
  \<^item> \<open>newOptions\<close> and \<open>addExecutorLzReceiveOption\<close> of the library \<open>OptionsBuilder\<close>;
  \<^item> \<open>combineOptions\<close> of \<open>OAppOptionsType3\<close>, which reads the enforced options
    configured for a path;
  \<^item> \<open>oapp_lzSend\<close> and \<open>oapp_quote\<close>, the inherited \<open>_lzSend\<close> and \<open>_quote\<close> of
    \<open>OApp\<close>, which call the endpoint;
  \<^item> \<open>self_address\<close>, the contract's own \<open>address(this)\<close>.
  Each of them may revert.
\<close>

record env =
  newOptions :: bytes
  addExecutorLzReceiveOption :: "bytes \<Rightarrow> uint128 \<Rightarrow> uint128 \<Rightarrow> error + bytes"
  combineOptions :: "uint32 \<Rightarrow> uint16 \<Rightarrow> bytes \<Rightarrow> error + bytes"
  oapp_lzSend :: "lz_send \<Rightarrow> error + MessagingReceipt"
  oapp_quote :: "uint32 \<Rightarrow> bytes \<Rightarrow> bytes \<Rightarrow> bool \<Rightarrow> error + MessagingFee"
  self_address :: address

text \<open>
  The outcome of one call of the contract: the calls of \<open>_lzSend\<close> it made, in order, and
  either the revert or the returned value with the storage after the call.  On the EVM a
  revert undoes every storage write of the call, the sends included: \<open>state_after\<close> is
  the storage once the call is over.
\<close>

type_synonym 'a exec = "lz_send list \<times> (error + 'a \<times> state)"

definition state_after :: "state \<Rightarrow> 'a exec \<Rightarrow> state" where
  "state_after s r = (case snd r of Inl e \<Rightarrow> s | Inr (x, s') \<Rightarrow> s')"

definition combineOptionsCalldata :: "env \<Rightarrow> uint32 \<Rightarrow> uint16 \<Rightarrow> bytes \<Rightarrow> error + bytes" where
  "combineOptionsCalldata env dstEid msgType options = combineOptions env dstEid msgType options"

definition combineOptionsMemory :: "env \<Rightarrow> uint32 \<Rightarrow> uint16 \<Rightarrow> bytes \<Rightarrow> error + bytes" where
  "combineOptionsMemory env dstEid msgType options =
     (let tempOptions = options
      in combineOptionsCalldata env dstEid msgType tempOptions)"

text \<open>
  \<open>send\<close>, statement by statement.  \<open>msg_sender\<close> and \<open>msg_value\<close> are the caller and the
  native value of the call.  \<open>abi.encodePacked\<close> of two byte strings is their
  concatenation.
\<close>

definition send ::
  "env \<Rightarrow> address \<Rightarrow> uint256 \<Rightarrow> uint32 \<Rightarrow> bytes \<Rightarrow> uint128 \<Rightarrow> bytes \<Rightarrow> state \<Rightarrow> MessagingReceipt exec" where
  "send env msg_sender msg_value dstEid returnOptions returnGasEstimate options s =
     (let oldBall = ball s
      in case checked_sub (ball s) 1 of
           Inl e \<Rightarrow> ([], Inl e)
         | Inr newBall \<Rightarrow>
             let s1 = s\<lparr>ball := newBall\<rparr>;
                 s2 = s1\<lparr>events := events s1 @ [BallServed msg_sender dstEid oldBall (ball s1)]\<rparr>;
                 message = encodeABA (ball s2) returnOptions
             in case checked_add128 180000 returnGasEstimate of
                  Inl e \<Rightarrow> ([], Inl e)
                | Inr gas \<Rightarrow>
                    (case addExecutorLzReceiveOption env (newOptions env) gas 0 of
                       Inl e \<Rightarrow> ([], Inl e)
                     | Inr abaOptions \<Rightarrow>
                         let packedOptions = abaOptions @ options
                         in case combineOptionsMemory env dstEid ABA_TYPE packedOptions of
                              Inl e \<Rightarrow> ([], Inl e)
                            | Inr combinedOptions \<Rightarrow>
                                let call = \<lparr>send_dstEid = dstEid, send_message = message,
                                            send_options = combinedOptions,
                                            send_fee = \<lparr>nativeFee = msg_value, lzTokenFee = 0\<rparr>,
                                            send_refundAddress = msg_sender\<rparr>
                                in case oapp_lzSend env call of
                                     Inl e \<Rightarrow> ([call], Inl e)
                                   | Inr receipt \<Rightarrow> ([call], Inr (receipt, s2))))"

text \<open>
  \<open>quote\<close> is a \<open>view\<close> function: it computes \<open>ball - 1\<close> into the local \<open>tempBall\<close> and
  assigns nothing to storage.
\<close>

definition quote ::
  "env \<Rightarrow> uint32 \<Rightarrow> bytes \<Rightarrow> uint128 \<Rightarrow> bytes \<Rightarrow> bool \<Rightarrow> state \<Rightarrow> MessagingFee exec" where
  "quote env dstEid returnOptions returnGasEstimate options payInLzToken s =
     (case checked_sub (ball s) 1 of
        Inl e \<Rightarrow> ([], Inl e)
      | Inr tempBall \<Rightarrow>
          let abaMessage = encodeABA tempBall returnOptions
          in case checked_add128 180000 returnGasEstimate of
               Inl e \<Rightarrow> ([], Inl e)
             | Inr gas \<Rightarrow>
                 (case addExecutorLzReceiveOption env (newOptions env) gas 0 of
                    Inl e \<Rightarrow> ([], Inl e)
                  | Inr abaOptions \<Rightarrow>
                      let packedOptions = abaOptions @ options
                      in case combineOptionsMemory env dstEid ABA_TYPE packedOptions of
                           Inl e \<Rightarrow> ([], Inl e)
                         | Inr combinedOptions \<Rightarrow>
                             (case oapp_quote env dstEid abaMessage combinedOptions payInLzToken of
                                Inl e \<Rightarrow> ([], Inl e)
                              | Inr fee \<Rightarrow> ([], Inr (fee, s)))))"

text \<open>
  \<open>lzReceive\<close> is the override \<open>_lzReceive\<close>; \<open>msg_value\<close> is the native value forwarded
  with the delivery.  The unused parameters \<open>_guid\<close> and \<open>_extraData\<close> are left out.
\<close>

definition lzReceive ::
  "env \<Rightarrow> uint256 \<Rightarrow> Origin \<Rightarrow> bytes \<Rightarrow> address \<Rightarrow> state \<Rightarrow> unit exec" where
  "lzReceive env msg_value origin payload executor s =
     (case decodeABA payload of
        Inl e \<Rightarrow> ([], Inl e)
      | Inr (value, msgType, returnOptions) \<Rightarrow>
          let oldBall = ball s;
              s1 = s\<lparr>ball := value\<rparr>;
              s2 = s1\<lparr>events := events s1 @ [BallReceived executor oldBall (ball s1)]\<rparr>
          in if msgType = ABA_TYPE then
               (case checked_sub (ball s2) 1 of
                  Inl e \<Rightarrow> ([], Inl e)
                | Inr newBall \<Rightarrow>
                    let s3 = s2\<lparr>ball := newBall\<rparr>;
                        returnMessage = encode (ball s3);
                        call = \<lparr>send_dstEid = srcEid origin, send_message = returnMessage,
                                send_options = returnOptions,
                                send_fee = \<lparr>nativeFee = msg_value, lzTokenFee = 0\<rparr>,
                                send_refundAddress = self_address env\<rparr>
                    in case oapp_lzSend env call of
                         Inl e \<Rightarrow> ([call], Inl e)
                       | Inr receipt \<Rightarrow>
                           ([call],
                            Inr ((), s3\<lparr>events := events s3 @
                                        [ReturnMessageSent (srcEid origin) (ball s3)]\<rparr>)))
             else ([], Inr ((), s2)))"

text \<open>
  A sample environment, to run the contract on concrete inputs.  Its option builder
  appends the gas limit and the native drop as two 16-byte numbers, no options are
  enforced, and the endpoint charges one unit of native fee for each byte of the message:
  a send paying less reverts.
\<close>

definition sample_env :: env where
  "sample_env =
     \<lparr>newOptions = [0, 3],
      addExecutorLzReceiveOption =
        (\<lambda>opts gas val. Inr (opts @ be_bytes 16 (uint gas) @ be_bytes 16 (uint val))),
      combineOptions = (\<lambda>eid msgType opts. Inr opts),
      oapp_lzSend =
        (\<lambda>c. if nativeFee (send_fee c) < of_nat (length (send_message c))
              then Inl (ExternalRevert [])
              else Inr \<lparr>receipt_guid = 1, receipt_nonce = 1, receipt_fee = send_fee c\<rparr>),
      oapp_quote =
        (\<lambda>eid m opts pay. Inr \<lparr>nativeFee = of_nat (length m), lzTokenFee = 0\<rparr>),
      self_address = 11\<rparr>"

definition sample_origin :: Origin where
  "sample_origin = \<lparr>srcEid = 40168, sender = 10, origin_nonce = 1\<rparr>"

section \<open>Facts about the encoding\<close>

lemma length_be_bytes: "length (be_bytes n x) = n"
  by (induction n arbitrary: x) simp_all

lemma be_int_append: "be_int (xs @ [b]) = be_int xs * 256 + uint b"
  by (simp add: be_int_def)

lemma be_int_be_bytes: "be_int (be_bytes n x) = x mod 256 ^ n"
proof (induction n arbitrary: x)
  case 0
  show ?case by (simp add: be_int_def)
next
  case (Suc n)
  have "uint (word_of_int (x mod 256) :: byte) = x mod 256"
    by (simp add: uint_word_of_int)
  then have "be_int (be_bytes (Suc n) x) = (x div 256) mod 256 ^ n * 256 + x mod 256"
    by (simp add: be_int_append Suc.IH)
  also have "\<dots> = x mod 256 ^ Suc n"
    using zmod_zmult2_eq [of "256 ^ n" x 256] by (simp add: ac_simps)
  finally show ?case .
qed

lemma length_abi_slot: "length (abi_slot v) = 32"
  by (simp add: abi_slot_def length_be_bytes)

lemma word_of_abi_slot: "word_of_int (be_int (abi_slot v)) = v"
proof -
  have "uint v mod 256 ^ 32 = uint v"
    using uint_lt2p [of v] by simp
  then show ?thesis
    by (simp add: abi_slot_def be_int_be_bytes)
qed

lemma calldataload_at_slot:
  "length pre = i \<Longrightarrow> calldataload (pre @ abi_slot v @ rest) i = v"
  by (simp add: calldataload_def length_abi_slot word_of_abi_slot)

lemma calldataload_slot0: "calldataload (abi_slot v @ rest) 0 = v"
  using calldataload_at_slot [of "[]" 0 v rest] by simp


lemma length_encodeABA:
  "length (encodeABA v r) = 128 + length r + length (pad32 (length r))"
  by (simp add: encodeABA_def length_abi_slot)

lemma encodeABA_slot0: "calldataload (encodeABA v r) 0 = v"
  by (simp add: encodeABA_def calldataload_slot0)

lemma encodeABA_slot1: "calldataload (encodeABA v r) 32 = ucast ABA_TYPE"
  using calldataload_at_slot [of "abi_slot v" 32 "ucast ABA_TYPE"]
  by (simp add: encodeABA_def length_abi_slot)

lemma encodeABA_slot2: "calldataload (encodeABA v r) 64 = 96"
  using calldataload_at_slot [of "abi_slot v @ abi_slot (ucast ABA_TYPE)" 64 96]
  by (simp add: encodeABA_def length_abi_slot)

lemma encodeABA_slot3: "calldataload (encodeABA v r) 96 = of_nat (length r)"
  using calldataload_at_slot
    [of "abi_slot v @ abi_slot (ucast ABA_TYPE) @ abi_slot 96" 96 "of_nat (length r)"]
  by (simp add: encodeABA_def length_abi_slot)

lemma encodeABA_tail: "take (length r) (drop 128 (encodeABA v r)) = r"
  by (simp add: encodeABA_def length_abi_slot)

lemma uint_length_word:
  assumes "length (r :: bytes) < 2 ^ 64"
  shows "uint (of_nat (length r) :: uint256) = int (length r)"
proof -
  have "length r < 2 ^ 256"
    using assms by (rule less_trans) simp
  then have "unat (of_nat (length r) :: uint256) = length r"
    by (simp add: unat_of_nat)
  then show ?thesis
    by (simp add: uint_nat)
qed

lemma decodeABA_encodeABA:
  assumes "length r < 2 ^ 64"
  shows "decodeABA (encodeABA v r) = Inr (v, ABA_TYPE, r)"
proof -
  let ?m = "encodeABA v r"
  have len: "length ?m = 128 + length r + length (pad32 (length r))"
    by (rule length_encodeABA)
  have l: "uint (of_nat (length r) :: uint256) = int (length r)"
    using assms by (rule uint_length_word)
  have clean: "(ucast ABA_TYPE :: uint256) = ucast (ucast (ucast ABA_TYPE :: uint256) :: uint16)"
    by (simp add: ABA_TYPE_def)
  have narrowed: "(ucast (ucast ABA_TYPE :: uint256) :: uint16) = ABA_TYPE"
    by (simp add: ABA_TYPE_def)
  have bounded: "int (length r) \<le> 0xffffffffffffffff"
    using assms by simp
  have "abi_decode_uint256_uint16_bytes ?m = Inr (v, ABA_TYPE, r)"
    unfolding abi_decode_uint256_uint16_bytes_def Let_def
    using clean bounded
    by (simp add: len encodeABA_slot0 encodeABA_slot1 encodeABA_slot2 encodeABA_slot3
        l narrowed encodeABA_tail)
  then show ?thesis
    by (simp add: decodeABA_def len)
qed

lemma checked_sub_one: "checked_sub a 1 = (if a = 0 then Inl (Panic 17) else Inr (a - 1))"
  by (simp add: checked_sub_def word_less_1)

lemma checked_add128_base:
  "checked_add128 180000 g =
     (if 180000 + uint g < 2 ^ 128 then Inr (180000 + g) else Inl (Panic 17))"
  by (simp add: checked_add128_def)


lemma decodeABA_encode: "decodeABA (encode v) = Inr (v, 0, [])"
  by (simp add: decodeABA_def encode_def abi_decode_uint256_def length_abi_slot
      calldataload_def word_of_abi_slot)

lemma sample_reply_price: "(of_nat (length (encode v)) :: uint256) = 32"
  by (simp add: encode_def length_abi_slot)

lemmas contract_defs = send_def quote_def lzReceive_def Let_def combineOptionsMemory_def
  combineOptionsCalldata_def state_after_def checked_sub_one

section \<open>The message codec\<close>

text \<open>
  C9.  \<open>encode\<close> of any 256-bit value is exactly 32 bytes, \<open>decode\<close> gives the value
  back, and \<open>decode\<close> fails with \<open>InvalidMsgLength\<close> on every input whose length is not 32.
\<close>

theorem encode_decode_vanilla:
  "length (encode v) = 32 \<and> decode (encode v) = Inr v \<and>
   (length msg \<noteq> 32 \<longrightarrow> decode msg = Inl InvalidMsgLength)"
  by (simp add: decode_def encode_def abi_decode_uint256_def length_abi_slot
      calldataload_def word_of_abi_slot)

theorem encode_decode_vanilla_witness:
  "length (encode 100) = 32 \<and> decode (encode 100) = Inr 100 \<and>
   length [1, 2, 3 :: byte] \<noteq> 32 \<and> decode [1, 2, 3] = Inl InvalidMsgLength"
  using encode_decode_vanilla [of 100 "[1, 2, 3]"] by simp

text \<open>
  C3.  On every buffer of exactly 32 bytes, whatever its content, \<open>decodeABA\<close> succeeds
  with the buffer read as a 256-bit big-endian value, message type 0 and empty return
  options.  The tuple decoder is not consulted: on such a buffer it would revert.
\<close>

theorem decodeABA_vanilla:
  assumes "length msg = 32"
  shows "decodeABA msg = Inr (word_of_int (be_int msg), 0, []) \<and>
         abi_decode_uint256_uint16_bytes msg = Inl AbiDecodeRevert"
  using assms
  by (simp add: decodeABA_def abi_decode_uint256_def calldataload_def
      abi_decode_uint256_uint16_bytes_def)

theorem decodeABA_vanilla_witness:
  "length (replicate 31 0 @ [100 :: byte]) = 32 \<and>
   decodeABA (replicate 31 0 @ [100]) = Inr (100, 0, [])"
proof -
  have h: "length (replicate 31 0 @ [100 :: byte]) = 32" by simp
  have v: "(word_of_int (be_int (replicate 31 0 @ [100])) :: uint256) = 100" by code_simp
  from decodeABA_vanilla [OF h] v h show ?thesis by simp
qed

text \<open>
  C2.  For every 256-bit value and every byte string that calldata can hold (its length
  fits in 64 bits, the bound the ABI decoder puts on every \<open>bytes\<close> argument),
  \<open>decodeABA\<close> of \<open>encodeABA\<close> succeeds with the value, \<open>ABA_TYPE = 2\<close> and the same
  byte string.  \<open>encodeABA(100, empty)\<close> is the 128 bytes \<open>[100][2][96][0]\<close> and decodes
  to \<open>(100, 2, empty)\<close>.
\<close>

theorem encodeABA_decodeABA:
  "(length r < 2 ^ 64 \<longrightarrow> decodeABA (encodeABA v r) = Inr (v, ABA_TYPE, r)) \<and>
   ABA_TYPE = 2 \<and>
   encodeABA 100 [] =
     replicate 31 0 @ [100] @ replicate 31 0 @ [2] @ replicate 31 0 @ [96] @ replicate 32 0 \<and>
   length (encodeABA 100 []) = 128 \<and>
   decodeABA (encodeABA 100 []) = Inr (100, 2, [])"
proof -
  have layout: "encodeABA 100 [] =
     replicate 31 0 @ [100] @ replicate 31 0 @ [2] @ replicate 31 0 @ [96] @ replicate 32 0"
    by code_simp
  have "decodeABA (encodeABA 100 []) = Inr (100, ABA_TYPE, [])"
    by (rule decodeABA_encodeABA) simp
  then have "decodeABA (encodeABA 100 []) = Inr (100, 2, [])"
    by (simp add: ABA_TYPE_def)
  moreover have "length (encodeABA 100 []) = 128"
    by (simp add: length_encodeABA pad32_def)
  ultimately show ?thesis
    using layout by (simp add: decodeABA_encodeABA ABA_TYPE_def)
qed

theorem encodeABA_decodeABA_witness:
  "length [1, 2, 3 :: byte] < 2 ^ 64 \<and> decodeABA (encodeABA 7 [1, 2, 3]) = Inr (7, 2, [1, 2, 3])"
  using encodeABA_decodeABA [of "[1, 2, 3]" 7] by simp

text \<open>
  C1, as the code has it.  On every buffer whose length is not 32, \<open>decodeABA\<close> reverts
  whenever the buffer is shorter than 96 bytes, or the tail offset in the third head slot
  is greater than the length of the buffer, or the declared length of the tail runs past
  the end of the buffer.  No lower bound on the offset is among the conditions.
\<close>

theorem decodeABA_rejects:
  assumes "length msg \<noteq> 32"
    and "length msg < 96
       \<or> uint (calldataload msg 64) > int (length msg)
       \<or> uint (calldataload msg 64) + 32 +
           uint (calldataload msg (nat (uint (calldataload msg 64)))) > int (length msg)"
  shows "decodeABA msg = Inl AbiDecodeRevert"
  using assms
  by (auto simp add: decodeABA_def abi_decode_uint256_uint16_bytes_def Let_def)

text \<open>
  The three conditions, one buffer each: 95 zero bytes; a 96-byte head whose offset is 97;
  a 128-byte buffer with offset 96 and a declared tail of one byte that is not there.
\<close>

theorem decodeABA_rejects_witness:
  "decodeABA (replicate 95 0) = Inl AbiDecodeRevert \<and>
   decodeABA (replicate 63 0 @ [2] @ replicate 31 0 @ [97]) = Inl AbiDecodeRevert \<and>
   decodeABA (replicate 63 0 @ [2] @ replicate 31 0 @ [96] @ replicate 31 0 @ [1]) =
     Inl AbiDecodeRevert"
proof -
  have a: "length (replicate 95 (0 :: byte)) \<noteq> 32" "length (replicate 95 (0 :: byte)) < 96"
    by simp_all
  have b: "length (replicate 63 0 @ [2] @ replicate 31 0 @ [97 :: byte]) \<noteq> 32"
    by simp
  have b': "uint (calldataload (replicate 63 0 @ [2] @ replicate 31 0 @ [97]) 64)
              > int (length (replicate 63 0 @ [2] @ replicate 31 0 @ [97 :: byte]))"
    by code_simp
  have c: "length (replicate 63 0 @ [2] @ replicate 31 0 @ [96] @ replicate 31 0 @ [1 :: byte])
             \<noteq> 32"
    by simp
  have c': "uint (calldataload
                   (replicate 63 0 @ [2] @ replicate 31 0 @ [96] @ replicate 31 0 @ [1]) 64)
            + 32 +
            uint (calldataload
                   (replicate 63 0 @ [2] @ replicate 31 0 @ [96] @ replicate 31 0 @ [1])
                   (nat (uint (calldataload
                     (replicate 63 0 @ [2] @ replicate 31 0 @ [96] @ replicate 31 0 @ [1]) 64))))
            > int (length
                   (replicate 63 0 @ [2] @ replicate 31 0 @ [96] @ replicate 31 0 @ [1 :: byte]))"
    by code_simp
  show ?thesis
    using decodeABA_rejects [OF a(1)] a(2) decodeABA_rejects [OF b] b'
      decodeABA_rejects [OF c] c'
    by blast
qed

text \<open>
  C1 as stated asks for a revert whenever the offset lies outside \<open>[96, length]\<close>.  The
  96-byte buffer \<open>[0][2][0]\<close> has tail offset 0: the decoder follows it, reads slot 0 as the
  length of the tail (zero), and returns \<open>(0, 2, empty)\<close>.
\<close>

theorem decodeABA_low_offset_counterexample:
  "length (replicate 63 0 @ [2] @ replicate 32 (0 :: byte)) = 96 \<and>
   uint (calldataload (replicate 63 0 @ [2] @ replicate 32 0) 64) = 0 \<and>
   decodeABA (replicate 63 0 @ [2] @ replicate 32 0) = Inr (0, 2, [])"
  by code_simp

section \<open>Sending, quoting and receiving\<close>

text \<open>
  C10.  When \<open>ball\<close> is 0, \<open>send\<close> reverts with the arithmetic panic of \<open>ball - 1\<close>: no
  call reaches the transport and the storage after the call is the storage before it.
  Likewise \<open>lzReceive\<close> of a message that decodes to value 0 with the ABA type reverts on
  the decrement of the reply step.
\<close>

theorem zero_ball_reverts:
  "(ball s = 0 \<longrightarrow>
      send env msg_sender msg_value dstEid returnOptions g options s = ([], Inl (Panic 17)) \<and>
      state_after s (send env msg_sender msg_value dstEid returnOptions g options s) = s) \<and>
   (decodeABA payload = Inr (0, ABA_TYPE, r) \<longrightarrow>
      lzReceive env forwarded origin payload executor s = ([], Inl (Panic 17)) \<and>
      state_after s (lzReceive env forwarded origin payload executor s) = s)"
proof -
  have underflow: "checked_sub 0 1 = Inl (Panic 17)"
    by (simp add: checked_sub_one)
  have served: "send env msg_sender msg_value dstEid returnOptions g options s =
                  ([], Inl (Panic 17))" if "ball s = 0"
    using that underflow by (simp add: send_def)
  have received: "lzReceive env forwarded origin payload executor s = ([], Inl (Panic 17))"
    if "decodeABA payload = Inr (0, ABA_TYPE, r)"
    using that underflow by (simp add: lzReceive_def)
  show ?thesis
    using served received by (simp add: state_after_def)
qed

theorem zero_ball_reverts_witness:
  "ball (initial_state\<lparr>ball := 0\<rparr>) = 0 \<and>
   send sample_env 12 500 40168 [] 50000 [] (initial_state\<lparr>ball := 0\<rparr>) = ([], Inl (Panic 17)) \<and>
   decodeABA (encodeABA 0 []) = Inr (0, ABA_TYPE, []) \<and>
   lzReceive sample_env 32 sample_origin (encodeABA 0 []) 12 initial_state = ([], Inl (Panic 17)) \<and>
   state_after initial_state (lzReceive sample_env 32 sample_origin (encodeABA 0 []) 12 initial_state)
     = initial_state"
proof -
  have d: "decodeABA (encodeABA 0 []) = Inr (0, ABA_TYPE, [])"
    by (rule decodeABA_encodeABA) simp
  show ?thesis
    using d
      zero_ball_reverts [where s = "initial_state\<lparr>ball := 0\<rparr>" and env = sample_env
        and msg_sender = 12 and msg_value = 500 and dstEid = 40168 and returnOptions = "[]"
        and g = 50000 and options = "[]" and payload = "[]" and r = "[]"]
      zero_ball_reverts [where s = initial_state and env = sample_env
        and payload = "encodeABA 0 []" and r = "[]" and forwarded = 32
        and origin = sample_origin and executor = 12]
    by (simp add: state_after_def)
qed

text \<open>
  C4, as the code has it.  For every payload that \<open>decodeABA\<close> accepts, \<open>lzReceive\<close>
  hands exactly one send to the transport when the decoded type is the ABA tag and the
  decoded value is not 0, and none when the payload is vanilla or carries any other tag.
\<close>

theorem lzReceive_reply_count:
  assumes "decodeABA payload = Inr (v, t, r)"
    and "t = ABA_TYPE \<longrightarrow> v \<noteq> 0"
  shows "length (fst (lzReceive env forwarded origin payload executor s)) =
           (if t = ABA_TYPE then 1 else 0)"
  using assms by (simp add: contract_defs split: sum.splits)

text \<open>
  An ABA message of value 100 (one send), a vanilla message (none), and an ABA-shaped
  message with tag 3 (decoded, none).
\<close>

theorem lzReceive_reply_count_witness:
  "length (fst (lzReceive sample_env 32 sample_origin (encodeABA 100 []) 12 initial_state)) = 1 \<and>
   length (fst (lzReceive sample_env 0 sample_origin (encode 100) 12 initial_state)) = 0 \<and>
   decodeABA (abi_slot 100 @ abi_slot 3 @ abi_slot 96 @ abi_slot 0) = Inr (100, 3, []) \<and>
   length (fst (lzReceive sample_env 32 sample_origin
                  (abi_slot 100 @ abi_slot 3 @ abi_slot 96 @ abi_slot 0) 12 initial_state)) = 0"
proof -
  have a: "decodeABA (encodeABA 100 []) = Inr (100, ABA_TYPE, [])"
    by (rule decodeABA_encodeABA) simp
  have b: "decodeABA (encode 100) = Inr (100, 0, [])"
    by (rule decodeABA_encode)
  have c: "decodeABA (abi_slot 100 @ abi_slot 3 @ abi_slot 96 @ abi_slot 0) = Inr (100, 3, [])"
    by code_simp
  show ?thesis
    using lzReceive_reply_count [OF a, of sample_env 32 sample_origin 12 initial_state]
      lzReceive_reply_count [OF b, of sample_env 0 sample_origin 12 initial_state]
      lzReceive_reply_count [OF c, of sample_env 32 sample_origin 12 initial_state]
      c
    by (simp add: ABA_TYPE_def)
qed

text \<open>
  C4 as stated promises one send for every decoded ABA message.  The payload
  \<open>encodeABA(0, empty)\<close> decodes to \<open>(0, 2, empty)\<close>, and \<open>lzReceive\<close> makes no send: it
  reverts on \<open>ball - 1\<close> first.
\<close>

theorem lzReceive_zero_value_counterexample:
  "decodeABA (encodeABA 0 []) = Inr (0, ABA_TYPE, []) \<and>
   length (fst (lzReceive sample_env 32 sample_origin (encodeABA 0 []) 12 initial_state)) = 0"
proof -
  have a: "decodeABA (encodeABA 0 []) = Inr (0, ABA_TYPE, [])"
    by (rule decodeABA_encodeABA) simp
  then show ?thesis
    by (simp add: lzReceive_def Let_def checked_sub_one)
qed

text \<open>
  C5, as the code has it.  For every received ABA message carrying a value \<open>v\<close> other
  than 0 and return options \<open>r\<close>, the one call \<open>lzReceive\<close> makes to the transport goes to
  the source path with the message \<open>encode (v - 1)\<close>, the options \<open>r\<close> as decoded, the
  fee \<open>(msg.value, 0)\<close> and the contract itself as refund address; when the transport
  accepts it, \<open>ball\<close> is \<open>v - 1\<close> after the call.
\<close>

theorem lzReceive_reply_content:
  assumes "decodeABA payload = Inr (v, ABA_TYPE, r)"
    and "v \<noteq> 0"
  shows "fst (lzReceive env forwarded origin payload executor s) =
           [\<lparr>send_dstEid = srcEid origin, send_message = encode (v - 1), send_options = r,
             send_fee = \<lparr>nativeFee = forwarded, lzTokenFee = 0\<rparr>,
             send_refundAddress = self_address env\<rparr>] \<and>
         (\<forall>receipt.
            oapp_lzSend env
              \<lparr>send_dstEid = srcEid origin, send_message = encode (v - 1), send_options = r,
               send_fee = \<lparr>nativeFee = forwarded, lzTokenFee = 0\<rparr>,
               send_refundAddress = self_address env\<rparr> = Inr receipt \<longrightarrow>
            ball (state_after s (lzReceive env forwarded origin payload executor s)) = v - 1)"
  using assms by (simp add: contract_defs split: sum.splits)

theorem lzReceive_reply_content_witness:
  "decodeABA (encodeABA 100 [1, 2, 3]) = Inr (100, ABA_TYPE, [1, 2, 3]) \<and>
   fst (lzReceive sample_env 32 sample_origin (encodeABA 100 [1, 2, 3]) 12 initial_state) =
     [\<lparr>send_dstEid = 40168, send_message = encode 99, send_options = [1, 2, 3],
       send_fee = \<lparr>nativeFee = 32, lzTokenFee = 0\<rparr>, send_refundAddress = 11\<rparr>] \<and>
   ball (state_after initial_state
          (lzReceive sample_env 32 sample_origin (encodeABA 100 [1, 2, 3]) 12 initial_state)) = 99"
proof -
  have a: "decodeABA (encodeABA 100 [1, 2, 3]) = Inr (100, ABA_TYPE, [1, 2, 3])"
    by (rule decodeABA_encodeABA) simp
  have nz: "(100 :: uint256) \<noteq> 0" by simp
  show ?thesis
    using a lzReceive_reply_content [OF a nz, of sample_env 32 sample_origin 12 initial_state]
    by (simp add: sample_env_def sample_origin_def sample_reply_price)
qed

text \<open>
  C5 as stated covers every value.  At value 0 there is no \<open>v - 1\<close> and no reply: the
  call reverts with the arithmetic panic and nothing is sent.
\<close>

theorem lzReceive_no_reply_counterexample:
  "decodeABA (encodeABA 0 [1, 2, 3]) = Inr (0, ABA_TYPE, [1, 2, 3]) \<and>
   lzReceive sample_env 32 sample_origin (encodeABA 0 [1, 2, 3]) 12 initial_state =
     ([], Inl (Panic 17))"
proof -
  have a: "decodeABA (encodeABA 0 [1, 2, 3]) = Inr (0, ABA_TYPE, [1, 2, 3])"
    by (rule decodeABA_encodeABA) simp
  then show ?thesis
    by (simp add: lzReceive_def Let_def checked_sub_one)
qed

text \<open>
  C6, as the code has it.  When the transport rejects the reply of an ABA message, the
  revert is the result of the whole \<open>lzReceive\<close> call, and the storage after the call is
  the storage before it: the assignment \<open>ball = value\<close> is undone with the rest.
\<close>

theorem lzReceive_failed_reply:
  assumes "decodeABA payload = Inr (v, ABA_TYPE, r)"
    and "v \<noteq> 0"
    and "oapp_lzSend env
           \<lparr>send_dstEid = srcEid origin, send_message = encode (v - 1), send_options = r,
            send_fee = \<lparr>nativeFee = forwarded, lzTokenFee = 0\<rparr>,
            send_refundAddress = self_address env\<rparr> = Inl e"
  shows "snd (lzReceive env forwarded origin payload executor s) = Inl e \<and>
         state_after s (lzReceive env forwarded origin payload executor s) = s"
  using assms by (simp add: contract_defs)

theorem lzReceive_failed_reply_witness:
  "decodeABA (encodeABA 100 []) = Inr (100, ABA_TYPE, []) \<and>
   snd (lzReceive sample_env 31 sample_origin (encodeABA 100 []) 12 initial_state) =
     Inl (ExternalRevert []) \<and>
   state_after initial_state
     (lzReceive sample_env 31 sample_origin (encodeABA 100 []) 12 initial_state) = initial_state"
proof -
  have a: "decodeABA (encodeABA 100 []) = Inr (100, ABA_TYPE, [])"
    by (rule decodeABA_encodeABA) simp
  have nz: "(100 :: uint256) \<noteq> 0" by simp
  have f: "oapp_lzSend sample_env
           \<lparr>send_dstEid = srcEid sample_origin, send_message = encode (100 - 1), send_options = [],
            send_fee = \<lparr>nativeFee = 31, lzTokenFee = 0\<rparr>,
            send_refundAddress = self_address sample_env\<rparr> = Inl (ExternalRevert [])"
    by (simp add: sample_env_def sample_reply_price)
  show ?thesis
    using a lzReceive_failed_reply [OF a nz f, of 12 initial_state] by simp
qed

text \<open>
  C6 as stated keeps the received value when the reply fails.  In the sample environment
  the reply costs 32.  With 31 forwarded, the send of \<open>encode 99\<close> is rejected and
  \<open>ball\<close> is still its initial \<open>100000000000000000000\<close> after the call, not the received
  100; with 32 forwarded the call goes through and \<open>ball\<close> is 99.
\<close>

theorem lzReceive_rollback_counterexample:
  "fst (lzReceive sample_env 31 sample_origin (encodeABA 100 []) 12 initial_state) =
     [\<lparr>send_dstEid = 40168, send_message = encode 99, send_options = [],
       send_fee = \<lparr>nativeFee = 31, lzTokenFee = 0\<rparr>, send_refundAddress = 11\<rparr>] \<and>
   snd (lzReceive sample_env 31 sample_origin (encodeABA 100 []) 12 initial_state) =
     Inl (ExternalRevert []) \<and>
   ball (state_after initial_state
          (lzReceive sample_env 31 sample_origin (encodeABA 100 []) 12 initial_state)) =
     100000000000000000000 \<and>
   ball (state_after initial_state
          (lzReceive sample_env 32 sample_origin (encodeABA 100 []) 12 initial_state)) = 99"
proof -
  have a: "decodeABA (encodeABA 100 []) = Inr (100, ABA_TYPE, [])"
    by (rule decodeABA_encodeABA) simp
  then show ?thesis
    by (simp add: lzReceive_def Let_def checked_sub_one state_after_def
        sample_env_def sample_origin_def initial_state_def sample_reply_price)
qed



text \<open>
  C8.  For the same arguments and the same storage, \<open>quote\<close> builds what \<open>send\<close> builds:
  when \<open>send\<close> reaches the transport with a call \<open>c\<close>, whose message is
  \<open>encodeABA (ball - 1) returnOptions\<close>, \<open>quote\<close> asks the fee oracle about exactly the
  message and the options of \<open>c\<close> on the same path; when \<open>send\<close> reverts before the
  transport, \<open>quote\<close> reverts with the same error.  \<open>quote\<close> sends nothing and leaves the
  storage as it was.
\<close>

theorem quote_matches_send:
  "(fst (send env msg_sender msg_value dstEid returnOptions g options s) = [c] \<longrightarrow>
      send_dstEid c = dstEid \<and>
      send_message c = encodeABA (ball s - 1) returnOptions \<and>
      quote env dstEid returnOptions g options payInLzToken s =
        (case oapp_quote env dstEid (send_message c) (send_options c) payInLzToken of
           Inl e \<Rightarrow> ([], Inl e)
         | Inr fee \<Rightarrow> ([], Inr (fee, s)))) \<and>
   (fst (send env msg_sender msg_value dstEid returnOptions g options s) = [] \<longrightarrow>
      (\<exists>e. send env msg_sender msg_value dstEid returnOptions g options s = ([], Inl e) \<and>
           quote env dstEid returnOptions g options payInLzToken s = ([], Inl e))) \<and>
   fst (quote env dstEid returnOptions g options payInLzToken s) = [] \<and>
   state_after s (quote env dstEid returnOptions g options payInLzToken s) = s"
proof -
  let ?send = "send env msg_sender msg_value dstEid returnOptions g options s"
  let ?quote = "quote env dstEid returnOptions g options payInLzToken s"
  have reached: "send_dstEid c = dstEid \<and>
      send_message c = encodeABA (ball s - 1) returnOptions \<and>
      ?quote = (case oapp_quote env dstEid (send_message c) (send_options c) payInLzToken of
                  Inl e \<Rightarrow> ([], Inl e)
                | Inr fee \<Rightarrow> ([], Inr (fee, s)))"
    if "fst ?send = [c]"
    using that
    by (auto simp add: contract_defs checked_add128_base split: sum.splits if_splits)
  have early: "\<exists>e. ?send = ([], Inl e) \<and> ?quote = ([], Inl e)" if "fst ?send = []"
    using that
    by (auto simp add: contract_defs checked_add128_base split: sum.splits if_splits)
  have silent: "fst ?quote = []"
    by (simp add: contract_defs checked_add128_base split: sum.splits)
  have unchanged: "state_after s ?quote = s"
    by (simp add: contract_defs checked_add128_base split: sum.splits)
  show ?thesis
    using reached early silent unchanged by blast
qed

theorem quote_matches_send_witness:
  "fst (send sample_env 12 500 40168 [1, 2, 3] 50000 [] initial_state) =
     [\<lparr>send_dstEid = 40168,
       send_message = encodeABA 99999999999999999999 [1, 2, 3],
       send_options = [0, 3] @ be_bytes 16 230000 @ be_bytes 16 0,
       send_fee = \<lparr>nativeFee = 500, lzTokenFee = 0\<rparr>, send_refundAddress = 12\<rparr>] \<and>
   quote sample_env 40168 [1, 2, 3] 50000 [] False initial_state =
     ([], Inr (\<lparr>nativeFee = 160, lzTokenFee = 0\<rparr>, initial_state)) \<and>
   fst (send sample_env 12 500 40168 [] 50000 [] (initial_state\<lparr>ball := 0\<rparr>)) = [] \<and>
   quote sample_env 40168 [] 50000 [] False (initial_state\<lparr>ball := 0\<rparr>) = ([], Inl (Panic 17))"
proof -
  have p: "length (encodeABA v [1, 2, 3]) = 160" for v
    by (simp add: length_encodeABA pad32_def)
  have s: "fst (send sample_env 12 500 40168 [1, 2, 3] 50000 [] initial_state) =
     [\<lparr>send_dstEid = 40168,
       send_message = encodeABA 99999999999999999999 [1, 2, 3],
       send_options = [0, 3] @ be_bytes 16 230000 @ be_bytes 16 0,
       send_fee = \<lparr>nativeFee = 500, lzTokenFee = 0\<rparr>, send_refundAddress = 12\<rparr>]"
    by (simp add: contract_defs checked_add128_base sample_env_def initial_state_def p)
  have z: "fst (send sample_env 12 500 40168 [] 50000 [] (initial_state\<lparr>ball := 0\<rparr>)) = []"
    by (simp add: contract_defs)
  show ?thesis
    using s z
      quote_matches_send [where env = sample_env and msg_sender = 12 and msg_value = 500
        and dstEid = 40168 and returnOptions = "[1, 2, 3]" and g = 50000 and options = "[]"
        and s = initial_state and payInLzToken = False
        and c = "\<lparr>send_dstEid = 40168,
                 send_message = encodeABA 99999999999999999999 [1, 2, 3],
                 send_options = [0, 3] @ be_bytes 16 230000 @ be_bytes 16 0,
                 send_fee = \<lparr>nativeFee = 500, lzTokenFee = 0\<rparr>, send_refundAddress = 12\<rparr>"]
      quote_matches_send [where env = sample_env and msg_sender = 12 and msg_value = 500
        and dstEid = 40168 and returnOptions = "[]" and g = 50000 and options = "[]"
        and s = "initial_state\<lparr>ball := 0\<rparr>" and payInLzToken = False]
    by (auto simp add: sample_env_def p contract_defs)
qed

end
